theory Spec2Isabelle
  imports Complex_Main "HOL-Library.Sublist"
begin

section \<open>JavaScript values read by the code\<close>

text \<open>
  A decoded JSON body, the value \<^verbatim>\<open>await response.json()\<close> resolves to. A number is the
  decoded value; the code looks at a number only through its truthiness, which is
  "not zero". An object is the list of its own properties, each name once.
\<close>

datatype json =
    JNull
  | JBool bool
  | JNum rat
  | JStr string
  | JArr "json list"
  | JObj "(string \<times> json) list"

text \<open>
  \<^verbatim>\<open>data.k\<close> on a decoded body other than \<^verbatim>\<open>null\<close>: the property of an object, and
  \<^verbatim>\<open>undefined\<close> (\<open>None\<close>) when the object has no such property or the body is a string,
  number, boolean or array (none of the four names the code reads is defined on their
  prototypes). Reading a property of \<^verbatim>\<open>null\<close> raises; \<open>testApi\<close> below has that branch.
\<close>

fun get :: "json \<Rightarrow> string \<Rightarrow> json option" where
  "get (JObj kvs) k = map_of kvs k"
| "get _ k = None"

text \<open>JavaScript truthiness of a JSON value, and of a value that may be \<^verbatim>\<open>undefined\<close>.\<close>

fun truthy :: "json \<Rightarrow> bool" where
  "truthy JNull = False"
| "truthy (JBool b) = b"
| "truthy (JNum n) = (n \<noteq> 0)"
| "truthy (JStr s) = (s \<noteq> [])"
| "truthy (JArr xs) = True"
| "truthy (JObj kvs) = True"

fun truthyU :: "json option \<Rightarrow> bool" where
  "truthyU None = False"
| "truthyU (Some v) = truthy v"

text \<open>\<^verbatim>\<open>a || b\<close>: the left operand when it is truthy, the right operand otherwise.\<close>

definition lor :: "json option \<Rightarrow> json option \<Rightarrow> json option" where
  "lor a b = (if truthyU a then a else b)"

text \<open>\<^verbatim>\<open>a || b\<close> where \<^verbatim>\<open>b\<close> is a literal, so that the result is never \<^verbatim>\<open>undefined\<close>.\<close>

fun lorD :: "json option \<Rightarrow> json \<Rightarrow> json" where
  "lorD None b = b"
| "lorD (Some v) b = (if truthy v then v else b)"

text \<open>\<^verbatim>\<open>s.includes(p)\<close> and \<^verbatim>\<open>s.startsWith(p)\<close> on strings.\<close>

fun includesStr :: "string \<Rightarrow> string \<Rightarrow> bool" where
  "includesStr [] p = (p = [])"
| "includesStr (c # s) p = (prefix p (c # s) \<or> includesStr s p)"

definition startsWith :: "string \<Rightarrow> string \<Rightarrow> bool" where
  "startsWith s p = prefix p s"

text \<open>\<^verbatim>\<open>!s\<close> for a string, and \<^verbatim>\<open>if (workflowId)\<close> for an optional string: the empty
  string is falsy, as \<^verbatim>\<open>undefined\<close> is.\<close>

fun truthyS :: "string option \<Rightarrow> bool" where
  "truthyS None = False"
| "truthyS (Some s) = (s \<noteq> [])"

section \<open>Thrown values\<close>

text \<open>
  What a \<^verbatim>\<open>catch\<close> clause can receive: \<open>JsError\<close> is an instance of \<^verbatim>\<open>Error\<close> with its
  message and its stack trace (a \<^verbatim>\<open>TypeError\<close> of \<^verbatim>\<open>fetch\<close>, a \<^verbatim>\<open>SyntaxError\<close> of
  \<^verbatim>\<open>response.json()\<close>, a \<^verbatim>\<open>ReferenceError\<close>, the \<^verbatim>\<open>new Error(...)\<close> of
  \<open>handleApiError\<close>); \<open>NonError\<close> is a thrown value that is not an instance of
  \<^verbatim>\<open>Error\<close>.
\<close>

datatype thrown =
    JsError string "string option"
  | NonError json

fun instanceofError :: "thrown \<Rightarrow> bool" where
  "instanceofError (JsError m st) = True"
| "instanceofError (NonError v) = False"

text \<open>\<^verbatim>\<open>error.message\<close> and \<^verbatim>\<open>error.stack\<close> of an instance of \<^verbatim>\<open>Error\<close>; the code reads
  them only behind \<^verbatim>\<open>error instanceof Error\<close>.\<close>

fun messageOf :: "thrown \<Rightarrow> string" where
  "messageOf (JsError m st) = m"
| "messageOf (NonError v) = []"

fun stackOf :: "thrown \<Rightarrow> string option" where
  "stackOf (JsError m st) = st"
| "stackOf (NonError v) = None"

section \<open>The table \<^verbatim>\<open>workflow_logs\<close>, the network and the console\<close>

text \<open>
  A row of \<^verbatim>\<open>workflow_logs\<close> as the inserts of lines 87 and 122 write it. Its details are
  \<^verbatim>\<open>{status, response}\<close> (line 91) or \<^verbatim>\<open>{error, stack}\<close> (line 128). A request is what
  \<^verbatim>\<open>fetch\<close> is called with at line 69: url, method, the two headers, and the two fields
  of the JSON body.
\<close>

datatype details =
    ResponseDetails nat json
  | ErrorDetails string "string option"

record log_row =
  workflow_id :: string
  level :: string
  message :: string
  details :: details

record request =
  req_url :: string
  req_method :: string
  req_content_type :: string
  req_authorization :: string
  body_workerId :: string
  body_variables :: "(string \<times> string) list"

text \<open>
  A \<^verbatim>\<open>Response\<close> of \<^verbatim>\<open>fetch\<close>: its status, its status text and what \<^verbatim>\<open>response.json()\<close>
  gives, the decoded body or the error raised for a body that is not JSON.
  \<^verbatim>\<open>response.ok\<close> is, by the Fetch standard, a status from 200 to 299.
\<close>

record response =
  status :: nat
  statusText :: string
  json :: "thrown + json"

definition ok :: "response \<Rightarrow> bool" where
  "ok r = (200 \<le> status r \<and> status r \<le> 299)"

text \<open>
  Everything the code does to the outside, in the order it does it: a delete on
  \<^verbatim>\<open>workflow_logs\<close> filtered by \<^verbatim>\<open>workflow_id\<close> and \<^verbatim>\<open>message\<close>, an insert into
  \<^verbatim>\<open>workflow_logs\<close>, a \<^verbatim>\<open>fetch\<close>, a \<^verbatim>\<open>console.error\<close> of \<open>logError\<close> (message, stack,
  context) and a \<^verbatim>\<open>toast.error\<close>. The Supabase client reports a failed request in
  the value it resolves to, which the code discards: a delete or an insert raises
  nothing.
\<close>

datatype effect =
    Delete string string
  | Insert log_row
  | Fetch request
  | ConsoleError string "string option" "(string \<times> string) list option"
  | ToastError string

text \<open>
  What the code does not fix: the outcome of \<^verbatim>\<open>fetch\<close> for a request (a rejection or a
  response), the message of the \<^verbatim>\<open>TypeError\<close> the engine raises when a property of
  \<^verbatim>\<open>null\<close> is read, and the stack trace the engine gives an error raised inside the code.
\<close>

record env =
  fetch :: "request \<Rightarrow> thrown + response"
  nullReadMessage :: string
  stackTrace :: "string option"

text \<open>
  \<^verbatim>\<open>new ApiError(m)\<close>, lines 52, 56 and 99. The source declares \<^verbatim>\<open>ApiError\<close> as an
  interface only (lines 44 to 48): no class, function or import gives the name a value.
  An interface is erased from the program that runs, so evaluating \<^verbatim>\<open>new ApiError(m)\<close>
  raises a \<^verbatim>\<open>ReferenceError\<close> with the message \<^verbatim>\<open>ApiError is not defined\<close>, and the
  message \<^verbatim>\<open>m\<close> the source passes reaches nobody.
\<close>

definition newApiError :: "env \<Rightarrow> json \<Rightarrow> thrown" where
  "newApiError e m = JsError ''ApiError is not defined'' (stackTrace e)"

section \<open>error-handling.ts\<close>

definition logError :: "(string \<times> string) list option \<Rightarrow> thrown \<Rightarrow> effect list" where
  "logError context error =
     (let errorMessage = (if instanceofError error then messageOf error
                          else ''An unknown error occurred'');
          errorStack = (if instanceofError error then stackOf error else None)
      in [ConsoleError errorMessage errorStack context])"

text \<open>
  \<open>handleApiError\<close> has return type \<^verbatim>\<open>never\<close>. The model gives it the result type of any
  other function, a thrown value or a returned one, with the effects performed.
\<close>

definition handleApiError :: "env \<Rightarrow> thrown \<Rightarrow> (thrown + unit) \<times> effect list" where
  "handleApiError e error =
     (let fallThrough =
            (Inl (JsError ''Unknown error occurred'' (stackTrace e)),
             [ToastError ''An unexpected error occurred''])
      in if instanceofError error then
           if includesStr (messageOf error) ''401'' then
             (Inl (JsError ''Authentication failed'' (stackTrace e)),
              [ToastError ''Authentication failed. Please check your API credentials.''])
           else if includesStr (messageOf error) ''403'' then
             (Inl (JsError ''Permission denied'' (stackTrace e)),
              [ToastError ''You do not have permission to perform this action.''])
           else if includesStr (messageOf error) ''404'' then
             (Inl (JsError ''Resource not found'' (stackTrace e)),
              [ToastError ''The requested resource was not found.''])
           else if includesStr (messageOf error) ''429'' then
             (Inl (JsError ''Rate limit exceeded'' (stackTrace e)),
              [ToastError ''Too many requests. Please try again later.''])
           else if includesStr (messageOf error) ''500'' then
             (Inl (JsError ''Server error'' (stackTrace e)),
              [ToastError ''Server error. Please try again later.''])
           else fallThrough
         else fallThrough)"

section \<open>api.ts\<close>

text \<open>The field \<^verbatim>\<open>method\<close> of \<^verbatim>\<open>ApiConfig\<close> is written \<open>method'\<close>.\<close>

record ApiConfig =
  method' :: string
  url :: string
  content_type :: string

record TestApiParams =
  workerId :: string
  apiAuthToken :: string
  apiConfig :: ApiConfig
  variables :: "(string \<times> string) list"
  workflowId :: "string option"

record ApiData =
  response :: json

record ApiResponse =
  success :: bool
  data :: ApiData

text \<open>The value of the \<^verbatim>\<open>Authorization\<close> header (line 73).\<close>

definition authorization :: "string \<Rightarrow> string" where
  "authorization token =
     (if startsWith token ''Bearer '' then token
      else ''Bearer '' @ token)"

text \<open>The request of lines 69 to 79.\<close>

definition requestOf :: "TestApiParams \<Rightarrow> request" where
  "requestOf p =
     \<lparr>req_url = url (apiConfig p),
      req_method = method' (apiConfig p),
      req_content_type = content_type (apiConfig p),
      req_authorization = authorization (apiAuthToken p),
      body_workerId = workerId p,
      body_variables = variables p\<rparr>"

text \<open>Lines 61 to 67: the delete issued before the request.\<close>

definition clearPrevious :: "TestApiParams \<Rightarrow> effect list" where
  "clearPrevious p =
     (if truthyS (workflowId p)
      then [Delete (the (workflowId p)) ''API request successful'']
      else [])"

text \<open>Line 83.\<close>

definition responseTextOf :: "json \<Rightarrow> json option" where
  "responseTextOf d =
     lor (lor (lor (get d ''result'') (get d ''responseText'')) (get d ''response''))
         (get d ''message'')"

text \<open>Lines 86 to 96: the insert issued after the body is decoded.\<close>

definition logResponse :: "TestApiParams \<Rightarrow> response \<Rightarrow> json \<Rightarrow> effect list" where
  "logResponse p r d =
     (if truthyS (workflowId p) \<and> (\<not> ok r \<or> map_of (variables p) ''workflow'' = None)
      then [Insert \<lparr>workflow_id = the (workflowId p),
                    level = (if ok r then ''info'' else ''error''),
                    message = (if ok r then ''API request successful''
                               else ''API request failed: '' @ statusText r),
                    details = ResponseDetails (status r) d\<rparr>]
      else [])"

text \<open>
  The body of the \<^verbatim>\<open>try\<close> block, lines 60 to 109: the value it returns or the value
  thrown inside it, with the effects performed up to that point.
\<close>

definition tryBlock :: "env \<Rightarrow> TestApiParams \<Rightarrow> (thrown + ApiResponse) \<times> effect list" where
  "tryBlock e p =
     (let sent = clearPrevious p @ [Fetch (requestOf p)] in
      case fetch e (requestOf p) of
        Inl err \<Rightarrow> (Inl err, sent)
      | Inr r \<Rightarrow>
          (case json r of
             Inl err \<Rightarrow> (Inl err, sent)
           | Inr d \<Rightarrow>
               if d = JNull then (Inl (JsError (nullReadMessage e) (stackTrace e)), sent)
               else
                 let responseText = responseTextOf d;
                     logged = sent @ logResponse p r d
                 in if \<not> ok r then
                      (Inl (newApiError e
                              (lorD (get d ''message'')
                                    (JStr (''API request failed: '' @ statusText r)))),
                       logged)
                    else
                      (Inr \<lparr>success = True,
                            data = \<lparr>response =
                              lorD (lor responseText (get d ''result''))
                                   (JStr ''No response received'')\<rparr>\<rparr>,
                       logged)))"

text \<open>The \<^verbatim>\<open>catch\<close> block, lines 110 to 135, before it throws the error again.\<close>

definition catchBlock :: "TestApiParams \<Rightarrow> thrown \<Rightarrow> effect list" where
  "catchBlock p error =
     logError (Some [(''workerId'', workerId p),
                     (''url'', url (apiConfig p)),
                     (''method'', method' (apiConfig p))]) error
     @ (if truthyS (workflowId p) \<and> map_of (variables p) ''workflow'' \<noteq> None
        then [Insert \<lparr>workflow_id = the (workflowId p),
                      level = ''error'',
                      message = (if instanceofError error then messageOf error
                                 else ''Failed to connect to MindStudio API''),
                      details = ErrorDetails
                                  (if instanceofError error then messageOf error
                                   else ''Unknown error'')
                                  (if instanceofError error then stackOf error else None)\<rparr>]
        else [])"

definition testApi :: "env \<Rightarrow> TestApiParams \<Rightarrow> (thrown + ApiResponse) \<times> effect list" where
  "testApi e p =
     (if workerId p = [] \<or> workerId p = ''your-worker-id'' then
        (Inl (newApiError e (JStr ''Worker ID is not configured'')), [])
      else if apiAuthToken p = [] \<or> apiAuthToken p = ''your-auth-token'' then
        (Inl (newApiError e (JStr ''API authentication token is not configured'')), [])
      else
        case tryBlock e p of
          (Inr res, fx) \<Rightarrow> (Inr res, fx)
        | (Inl error, fx) \<Rightarrow> (Inl error, fx @ catchBlock p error))"

section \<open>The table as the inserts and deletes leave it\<close>

text \<open>
  Modelled from the spec: the Record Store behind \<^verbatim>\<open>supabase.from('workflow_logs')\<close> is
  not part of the source. By section 6 of the specification it deletes the rows that
  match the given workflow id and message exactly, and it inserts a row; \<open>testApi\<close>
  never reads the table and never looks at what a delete or an insert answers.
\<close>

fun applyEffect :: "log_row list \<Rightarrow> effect \<Rightarrow> log_row list" where
  "applyEffect rows (Delete w m) = filter (\<lambda>r. \<not> (workflow_id r = w \<and> message r = m)) rows"
| "applyEffect rows (Insert r) = rows @ [r]"
| "applyEffect rows _ = rows"

definition runStore :: "log_row list \<Rightarrow> effect list \<Rightarrow> log_row list" where
  "runStore rows fx = foldl applyEffect rows fx"

text \<open>The rows an effect list inserts, its accesses to the table, and its network calls.\<close>

fun inserts :: "effect list \<Rightarrow> log_row list" where
  "inserts [] = []"
| "inserts (Insert r # fx) = r # inserts fx"
| "inserts (_ # fx) = inserts fx"

fun isStoreAccess :: "effect \<Rightarrow> bool" where
  "isStoreAccess (Delete w m) = True"
| "isStoreAccess (Insert r) = True"
| "isStoreAccess _ = False"

fun isFetch :: "effect \<Rightarrow> bool" where
  "isFetch (Fetch q) = True"
| "isFetch _ = False"

fun isConsoleError :: "effect \<Rightarrow> bool" where
  "isConsoleError (ConsoleError m st c) = True"
| "isConsoleError _ = False"

section \<open>The specification's own words, for comparison with the code\<close>

text \<open>Neither check of lines 51 to 57 throws.\<close>

definition configured :: "TestApiParams \<Rightarrow> bool" where
  "configured p =
     (workerId p \<noteq> [] \<and> workerId p \<noteq> ''your-worker-id'' \<and>
      apiAuthToken p \<noteq> [] \<and> apiAuthToken p \<noteq> ''your-auth-token'')"

text \<open>
  The field probing of section 3 of the specification, with "truthy" where the
  specification says "present": the fields \<^verbatim>\<open>result\<close>, \<^verbatim>\<open>responseText\<close>, \<^verbatim>\<open>response\<close>
  and \<^verbatim>\<open>message\<close> in that order, the first truthy value, and the fixed string when there
  is none.
\<close>

definition probe :: "json \<Rightarrow> json" where
  "probe d =
     (case filter truthyU (map (get d) [''result'', ''responseText'', ''response'', ''message'']) of
        Some v # _ \<Rightarrow> v
      | _ \<Rightarrow> JStr ''No response received'')"

text \<open>
  The categories of section 4.2 of the specification, their substrings in priority
  order, and for each category the text shown to the operator and the message of the
  error raised.
\<close>

datatype category = Authentication | Permission | NotFound | RateLimit | ServerError | Unknown

definition priorities :: "(string \<times> category) list" where
  "priorities =
     [(''401'', Authentication), (''403'', Permission), (''404'', NotFound),
      (''429'', RateLimit), (''500'', ServerError)]"

definition classify :: "string \<Rightarrow> category" where
  "classify m =
     (case find (\<lambda>(sub, c). includesStr m sub) priorities of
        Some (sub, c) \<Rightarrow> c
      | None \<Rightarrow> Unknown)"

fun userMessage :: "category \<Rightarrow> string" where
  "userMessage Authentication = ''Authentication failed. Please check your API credentials.''"
| "userMessage Permission = ''You do not have permission to perform this action.''"
| "userMessage NotFound = ''The requested resource was not found.''"
| "userMessage RateLimit = ''Too many requests. Please try again later.''"
| "userMessage ServerError = ''Server error. Please try again later.''"
| "userMessage Unknown = ''An unexpected error occurred''"

definition categoryOf :: "thrown \<Rightarrow> category" where
  "categoryOf x = (if instanceofError x then classify (messageOf x) else Unknown)"

fun raisedMessage :: "category \<Rightarrow> string" where
  "raisedMessage Authentication = ''Authentication failed''"
| "raisedMessage Permission = ''Permission denied''"
| "raisedMessage NotFound = ''Resource not found''"
| "raisedMessage RateLimit = ''Rate limit exceeded''"
| "raisedMessage ServerError = ''Server error''"
| "raisedMessage Unknown = ''Unknown error occurred''"

section \<open>Concrete invocations\<close>

text \<open>The call description that \<^verbatim>\<open>WorkflowForm.tsx\<close> passes (lines 235 to 237).\<close>

definition postConfig :: ApiConfig where
  "postConfig =
     \<lparr>method' = ''post'',
      url = ''https://api.mindstudio.ai/developer/v2/workers/run'',
      content_type = ''application/json''\<rparr>"

definition testParams :: "(string \<times> string) list \<Rightarrow> string option \<Rightarrow> TestApiParams" where
  "testParams vs w =
     \<lparr>workerId = ''worker-1'', apiAuthToken = ''abc'', apiConfig = postConfig,
      variables = vs, workflowId = w\<rparr>"

text \<open>A world in which \<^verbatim>\<open>fetch\<close> answers every request with \<open>r\<close>, and one in which it
  rejects with \<open>x\<close>.\<close>

definition answering :: "response \<Rightarrow> env" where
  "answering r =
     \<lparr>fetch = (\<lambda>q. Inr r), nullReadMessage = ''Cannot read properties of null'',
      stackTrace = None\<rparr>"

definition rejecting :: "thrown \<Rightarrow> env" where
  "rejecting x =
     \<lparr>fetch = (\<lambda>q. Inl x), nullReadMessage = ''Cannot read properties of null'',
      stackTrace = None\<rparr>"

definition jsonResponse :: "nat \<Rightarrow> string \<Rightarrow> json \<Rightarrow> response" where
  "jsonResponse st txt d = \<lparr>status = st, statusText = txt, json = Inr d\<rparr>"

text \<open>A 502 whose body is a web page: \<^verbatim>\<open>response.json()\<close> rejects with a
  \<^verbatim>\<open>SyntaxError\<close>.\<close>

definition badGateway :: response where
  "badGateway =
     \<lparr>status = 502, statusText = ''Bad Gateway'',
      json = Inl (JsError ''Unexpected token < in JSON at position 0'' None)\<rparr>"

text \<open>A table that already holds two success rows of workflow \<^verbatim>\<open>w1\<close> and one of
  another workflow.\<close>

definition staleRows :: "log_row list" where
  "staleRows =
     [\<lparr>workflow_id = ''w1'', level = ''info'', message = ''API request successful'',
       details = ResponseDetails 200 (JObj [])\<rparr>,
      \<lparr>workflow_id = ''w2'', level = ''info'', message = ''API request successful'',
       details = ResponseDetails 200 (JObj [])\<rparr>,
      \<lparr>workflow_id = ''w1'', level = ''info'', message = ''API request successful'',
       details = ResponseDetails 201 (JObj [])\<rparr>]"

section \<open>Facts about the embedding\<close>

lemma includesStr_sublist: "includesStr s p = sublist p s"
  by (induction s) (simp_all add: sublist_Cons_right)

lemma includesStr_iff: "includesStr s p \<longleftrightarrow> (\<exists>a b. s = a @ p @ b)"
  by (simp add: includesStr_sublist sublist_def)

lemma inserts_append: "inserts (a @ b) = inserts a @ inserts b"
  by (induction a rule: inserts.induct) simp_all

lemma inserts_clearPrevious: "inserts (clearPrevious p) = []"
  by (simp add: clearPrevious_def)

lemma inserts_logError: "inserts (logError c x) = []"
  by (simp add: logError_def)

lemma inserts_catchBlock:
  "inserts (catchBlock p x) =
     (if truthyS (workflowId p) \<and> map_of (variables p) ''workflow'' \<noteq> None
      then [\<lparr>workflow_id = the (workflowId p), level = ''error'',
             message = (if instanceofError x then messageOf x
                        else ''Failed to connect to MindStudio API''),
             details = ErrorDetails (if instanceofError x then messageOf x else ''Unknown error'')
                                    (if instanceofError x then stackOf x else None)\<rparr>]
      else [])"
  by (simp add: catchBlock_def inserts_append inserts_logError)

text \<open>The \<^verbatim>\<open>try\<close> block once the body is decoded to a value other than \<^verbatim>\<open>null\<close>.\<close>

lemma tryBlock_decoded:
  "fetch e (requestOf p) = Inr r \<Longrightarrow> json r = Inr d \<Longrightarrow> d \<noteq> JNull \<Longrightarrow>
   tryBlock e p =
     (if \<not> ok r
      then Inl (newApiError e (lorD (get d ''message'') (JStr (''API request failed: '' @ statusText r))))
      else Inr \<lparr>success = True,
                data = \<lparr>response = lorD (lor (responseTextOf d) (get d ''result''))
                                         (JStr ''No response received'')\<rparr>\<rparr>,
      clearPrevious p @ [Fetch (requestOf p)] @ logResponse p r d)"
  by (simp add: tryBlock_def Let_def)

text \<open>The failures of the \<^verbatim>\<open>try\<close> block: a rejected \<^verbatim>\<open>fetch\<close>, a body that is not JSON,
  a body that is \<^verbatim>\<open>null\<close>, and a status outside 200 to 299.\<close>

lemma tryBlock_failures:
  "fetch e (requestOf p) = Inl x \<Longrightarrow> fst (tryBlock e p) = Inl x"
  "fetch e (requestOf p) = Inr r \<Longrightarrow> json r = Inl x \<Longrightarrow> fst (tryBlock e p) = Inl x"
  "fetch e (requestOf p) = Inr r \<Longrightarrow> json r = Inr JNull \<Longrightarrow>
     fst (tryBlock e p) = Inl (JsError (nullReadMessage e) (stackTrace e))"
  "fetch e (requestOf p) = Inr r \<Longrightarrow> json r = Inr d \<Longrightarrow> d \<noteq> JNull \<Longrightarrow> \<not> ok r \<Longrightarrow>
     fst (tryBlock e p) =
       Inl (newApiError e (lorD (get d ''message'') (JStr (''API request failed: '' @ statusText r))))"
  by (simp_all add: tryBlock_def Let_def)

lemma configured_testApi:
  "configured p \<Longrightarrow>
   testApi e p = (case tryBlock e p of (Inr res, fx) \<Rightarrow> (Inr res, fx)
                  | (Inl error, fx) \<Rightarrow> (Inl error, fx @ catchBlock p error))"
  by (simp add: testApi_def configured_def)

text \<open>A call that returns has sent one request and has written at most the row of
  lines 86 to 96, for a response with a success status.\<close>

lemma testApi_success:
  "fst (testApi e p) = Inr a \<Longrightarrow>
   \<exists>(r::response) d. ok r \<and> snd (testApi e p) = clearPrevious p @ [Fetch (requestOf p)] @ logResponse p r d"
  by (auto simp: testApi_def tryBlock_def Let_def split: if_splits sum.splits)

lemma testApi_success_test:
  assumes "fst (testApi e p) = Inr a" "workflowId p = Some w" "w \<noteq> []"
    "map_of (variables p) ''workflow'' = None"
  shows "\<exists>(r::response) d. snd (testApi e p) =
           [Delete w ''API request successful'', Fetch (requestOf p),
            Insert \<lparr>workflow_id = w, level = ''info'', message = ''API request successful'',
                    details = ResponseDetails (status r) d\<rparr>]"
proof -
  from testApi_success [OF assms(1)] obtain r :: response and d where
    "ok r" "snd (testApi e p) = clearPrevious p @ [Fetch (requestOf p)] @ logResponse p r d"
    by blast
  with assms(2-4) show ?thesis
    by (auto simp: clearPrevious_def logResponse_def)
qed

text \<open>The \<^verbatim>\<open>||\<close> chain of lines 83 and 107 is the probing of \<open>probe\<close>.\<close>

lemma probe_code:
  "lorD (lor (responseTextOf d) (get d ''result'')) (JStr ''No response received'') = probe d"
  by (cases "get d ''result''"; cases "get d ''responseText''"; cases "get d ''response''";
      cases "get d ''message''")
     (simp_all add: probe_def responseTextOf_def lor_def)

lemma classify_cascade:
  "classify m =
     (if includesStr m ''401'' then Authentication
      else if includesStr m ''403'' then Permission
      else if includesStr m ''404'' then NotFound
      else if includesStr m ''429'' then RateLimit
      else if includesStr m ''500'' then ServerError
      else Unknown)"
  by (simp add: classify_def priorities_def)

lemma handleApiError_category:
  "handleApiError e x =
     (Inl (JsError (raisedMessage (categoryOf x)) (stackTrace e)),
      [ToastError (userMessage (categoryOf x))])"
  by (simp add: handleApiError_def categoryOf_def classify_cascade Let_def)

lemma handleApiError_raised:
  "fst (handleApiError e x) =
     Inl (JsError
            (if instanceofError x \<and> includesStr (messageOf x) ''401'' then ''Authentication failed''
             else if instanceofError x \<and> includesStr (messageOf x) ''403'' then ''Permission denied''
             else if instanceofError x \<and> includesStr (messageOf x) ''404'' then ''Resource not found''
             else if instanceofError x \<and> includesStr (messageOf x) ''429'' then ''Rate limit exceeded''
             else if instanceofError x \<and> includesStr (messageOf x) ''500'' then ''Server error''
             else ''Unknown error occurred'')
            (stackTrace e))"
  by (simp add: handleApiError_category categoryOf_def classify_cascade)

lemma handleApiError_one_toast: "\<exists>t. snd (handleApiError e x) = [ToastError t]"
  by (simp add: handleApiError_category)

lemma handleApiError_same_input:
  "instanceofError y = instanceofError x \<Longrightarrow> messageOf y = messageOf x \<Longrightarrow>
   handleApiError e y = handleApiError e x"
  by (simp add: handleApiError_category categoryOf_def)

section \<open>The audit entry of step 5\<close>

text \<open>
  Claim C1, amended. The rows written by step 5 are the rows the \<^verbatim>\<open>try\<close> block inserts.
  For every invocation whose workflow id is a non-empty string and whose response has a
  body that decodes as JSON to a value other than \<^verbatim>\<open>null\<close>, the \<^verbatim>\<open>try\<close> block inserts a
  row if and only if the response status is not a success status or the variables have
  no key \<^verbatim>\<open>workflow\<close>; the row then has level \<^verbatim>\<open>info\<close> and message
  \<^verbatim>\<open>API request successful\<close> on a success status, level \<^verbatim>\<open>error\<close> and message
  \<^verbatim>\<open>API request failed: \<close> followed by the status text otherwise, and details made of
  the status and the decoded body. With the workflow id absent or empty the \<^verbatim>\<open>try\<close>
  block inserts no row, whatever the response.
\<close>

theorem C1_step5_audit_entry:
  "(workflowId p = Some w \<and> w \<noteq> [] \<and>
    fetch e (requestOf p) = Inr r \<and> json r = Inr d \<and> d \<noteq> JNull \<longrightarrow>
      inserts (snd (tryBlock e p)) =
        (if \<not> ok r \<or> map_of (variables p) ''workflow'' = None
         then [\<lparr>workflow_id = w,
                level = (if ok r then ''info'' else ''error''),
                message = (if ok r then ''API request successful''
                           else ''API request failed: '' @ statusText r),
                details = ResponseDetails (status r) d\<rparr>]
         else []))
   \<and> (\<not> truthyS (workflowId p) \<longrightarrow> inserts (snd (tryBlock e p)) = [])"
proof (intro conjI impI)
  assume "workflowId p = Some w \<and> w \<noteq> [] \<and>
    fetch e (requestOf p) = Inr r \<and> json r = Inr d \<and> d \<noteq> JNull"
  then show "inserts (snd (tryBlock e p)) =
        (if \<not> ok r \<or> map_of (variables p) ''workflow'' = None
         then [\<lparr>workflow_id = w,
                level = (if ok r then ''info'' else ''error''),
                message = (if ok r then ''API request successful''
                           else ''API request failed: '' @ statusText r),
                details = ResponseDetails (status r) d\<rparr>]
         else [])"
    by (simp add: tryBlock_decoded inserts_append inserts_clearPrevious logResponse_def)
next
  assume "\<not> truthyS (workflowId p)"
  then show "inserts (snd (tryBlock e p)) = []"
    by (simp add: tryBlock_def Let_def clearPrevious_def logResponse_def split: sum.splits)
qed

text \<open>A 500 with body \<^verbatim>\<open>{}\<close>: with workflow \<^verbatim>\<open>w1\<close> the error row is written although
  the variables carry \<^verbatim>\<open>workflow\<close>; without a workflow id nothing is written.\<close>

theorem C1_step5_audit_entry_witness:
  "inserts (snd (tryBlock (answering (jsonResponse 500 ''Internal Server Error'' (JObj [])))
                          (testParams [(''workflow'', ''x'')] (Some ''w1'')))) =
     [\<lparr>workflow_id = ''w1'', level = ''error'',
       message = ''API request failed: Internal Server Error'',
       details = ResponseDetails 500 (JObj [])\<rparr>]
   \<and> inserts (snd (tryBlock (answering (jsonResponse 500 ''Internal Server Error'' (JObj [])))
                          (testParams [] None))) = []"
  using C1_step5_audit_entry
          [of "testParams [(''workflow'', ''x'')] (Some ''w1'')" "''w1''"
              "answering (jsonResponse 500 ''Internal Server Error'' (JObj []))"
              "jsonResponse 500 ''Internal Server Error'' (JObj [])" "JObj []"]
        C1_step5_audit_entry
          [of "testParams [] None" "''w1''"
              "answering (jsonResponse 500 ''Internal Server Error'' (JObj []))"
              "jsonResponse 500 ''Internal Server Error'' (JObj [])" "JObj []"]
  by (simp add: testParams_def answering_def jsonResponse_def ok_def)

text \<open>
  Claim C1 as stated fails where the body of the response is not JSON. Workflow \<^verbatim>\<open>w1\<close>,
  no variables, and a 502 whose body is a web page: the status is not a success
  status, \<^verbatim>\<open>response.json()\<close> rejects at line 81, line 86 is never reached, and the whole
  call inserts no row.
\<close>

theorem C1_undecodable_body_counterexample:
  "workflowId (testParams [] (Some ''w1'')) = Some ''w1''
   \<and> fetch (answering badGateway) (requestOf (testParams [] (Some ''w1''))) = Inr badGateway
   \<and> \<not> ok badGateway
   \<and> inserts (snd (testApi (answering badGateway) (testParams [] (Some ''w1'')))) = []"
  by (simp add: testApi_def tryBlock_def catchBlock_def logError_def clearPrevious_def
        testParams_def answering_def badGateway_def ok_def)

section \<open>A response outside the success range\<close>

text \<open>
  Claim C2, amended. For every invocation that passes the two checks, has a non-empty
  workflow id and receives a response outside the success range whose body decodes as
  JSON to a value other than \<^verbatim>\<open>null\<close>: the call raises an error, and the step-5 row at
  level \<^verbatim>\<open>error\<close> is written, with the message \<^verbatim>\<open>API request failed: \<close> followed by the
  status text. That row is the only row written when the variables have no key
  \<^verbatim>\<open>workflow\<close>; when they have one, the \<^verbatim>\<open>catch\<close> block writes exactly one more row, also
  at level \<^verbatim>\<open>error\<close>, for the error raised. Which error is raised, and with which message
  and status, is not part of this statement.
\<close>

theorem C2_non_2xx_response:
  "configured p \<and> workflowId p = Some w \<and> w \<noteq> [] \<and>
   fetch e (requestOf p) = Inr r \<and> \<not> ok r \<and> json r = Inr d \<and> d \<noteq> JNull \<longrightarrow>
     (\<exists>x. fst (testApi e p) = Inl x
       \<and> inserts (snd (testApi e p)) =
           \<lparr>workflow_id = w, level = ''error'',
            message = ''API request failed: '' @ statusText r,
            details = ResponseDetails (status r) d\<rparr>
           # (if map_of (variables p) ''workflow'' = None then []
              else [\<lparr>workflow_id = w, level = ''error'',
                     message = (if instanceofError x then messageOf x
                                else ''Failed to connect to MindStudio API''),
                     details = ErrorDetails
                                 (if instanceofError x then messageOf x else ''Unknown error'')
                                 (if instanceofError x then stackOf x else None)\<rparr>]))"
proof
  assume h: "configured p \<and> workflowId p = Some w \<and> w \<noteq> [] \<and>
   fetch e (requestOf p) = Inr r \<and> \<not> ok r \<and> json r = Inr d \<and> d \<noteq> JNull"
  define x where
    "x = newApiError e (lorD (get d ''message'') (JStr (''API request failed: '' @ statusText r)))"
  from h have t: "tryBlock e p =
      (Inl x, clearPrevious p @ [Fetch (requestOf p)] @ logResponse p r d)"
    by (simp add: tryBlock_decoded x_def)
  from h have l: "inserts (logResponse p r d) =
      [\<lparr>workflow_id = w, level = ''error'',
        message = ''API request failed: '' @ statusText r,
        details = ResponseDetails (status r) d\<rparr>]"
    by (simp add: logResponse_def)
  from h t l have
    "fst (testApi e p) = Inl x
       \<and> inserts (snd (testApi e p)) =
           \<lparr>workflow_id = w, level = ''error'',
            message = ''API request failed: '' @ statusText r,
            details = ResponseDetails (status r) d\<rparr>
           # (if map_of (variables p) ''workflow'' = None then []
              else [\<lparr>workflow_id = w, level = ''error'',
                     message = (if instanceofError x then messageOf x
                                else ''Failed to connect to MindStudio API''),
                     details = ErrorDetails
                                 (if instanceofError x then messageOf x else ''Unknown error'')
                                 (if instanceofError x then stackOf x else None)\<rparr>])"
    by (simp add: configured_testApi inserts_append inserts_clearPrevious inserts_catchBlock)
  then show "\<exists>x. fst (testApi e p) = Inl x
       \<and> inserts (snd (testApi e p)) =
           \<lparr>workflow_id = w, level = ''error'',
            message = ''API request failed: '' @ statusText r,
            details = ResponseDetails (status r) d\<rparr>
           # (if map_of (variables p) ''workflow'' = None then []
              else [\<lparr>workflow_id = w, level = ''error'',
                     message = (if instanceofError x then messageOf x
                                else ''Failed to connect to MindStudio API''),
                     details = ErrorDetails
                                 (if instanceofError x then messageOf x else ''Unknown error'')
                                 (if instanceofError x then stackOf x else None)\<rparr>])"
    by (rule exI)
qed

text \<open>A 404 with body \<^verbatim>\<open>{"message": "no such worker"}\<close>, workflow \<^verbatim>\<open>w1\<close>, no variables:
  the call raises, and the step-5 row is the only row.\<close>

theorem C2_non_2xx_response_witness:
  "isl (fst (testApi (answering (jsonResponse 404 ''Not Found''
                                   (JObj [(''message'', JStr ''no such worker'')])))
                     (testParams [] (Some ''w1''))))
   \<and> inserts (snd (testApi (answering (jsonResponse 404 ''Not Found''
                                        (JObj [(''message'', JStr ''no such worker'')])))
                          (testParams [] (Some ''w1'')))) =
     [\<lparr>workflow_id = ''w1'', level = ''error'', message = ''API request failed: Not Found'',
       details = ResponseDetails 404 (JObj [(''message'', JStr ''no such worker'')])\<rparr>]"
  using C2_non_2xx_response
          [of "testParams [] (Some ''w1'')" "''w1''"
              "answering (jsonResponse 404 ''Not Found'' (JObj [(''message'', JStr ''no such worker'')]))"
              "jsonResponse 404 ''Not Found'' (JObj [(''message'', JStr ''no such worker'')])"
              "JObj [(''message'', JStr ''no such worker'')]"]
  by (auto simp: testParams_def answering_def jsonResponse_def ok_def configured_def)

text \<open>
  Claim C2 as stated fails on the number of rows. Workflow \<^verbatim>\<open>w1\<close>, variables
  \<^verbatim>\<open>{workflow: "x"}\<close>, and a 500 with body \<^verbatim>\<open>{"message": "boom"}\<close>: two rows are written
  at level \<^verbatim>\<open>error\<close>, one at line 87 and one at line 122.
\<close>

theorem C2_two_rows_counterexample:
  "workflowId (testParams [(''workflow'', ''x'')] (Some ''w1'')) = Some ''w1''
   \<and> status (jsonResponse 500 ''Internal Server Error'' (JObj [(''message'', JStr ''boom'')])) = 500
   \<and> \<not> ok (jsonResponse 500 ''Internal Server Error'' (JObj [(''message'', JStr ''boom'')]))
   \<and> map level (inserts (snd (testApi
        (answering (jsonResponse 500 ''Internal Server Error'' (JObj [(''message'', JStr ''boom'')])))
        (testParams [(''workflow'', ''x'')] (Some ''w1''))))) = [''error'', ''error'']"
  by (simp add: testApi_def tryBlock_def catchBlock_def logError_def clearPrevious_def
        logResponse_def newApiError_def requestOf_def
        testParams_def answering_def jsonResponse_def ok_def Let_def)

section \<open>The response text\<close>

text \<open>
  Claim C3, amended. On the success path (both checks pass, the status is a success
  status, the body decodes as JSON to a value other than \<^verbatim>\<open>null\<close>) the returned response
  is found by probing the fields \<^verbatim>\<open>result\<close>, \<^verbatim>\<open>responseText\<close>, \<^verbatim>\<open>response\<close> and
  \<^verbatim>\<open>message\<close> of the decoded body in that order; the first truthy value wins, and when
  none of the four is truthy the fixed string \<^verbatim>\<open>No response received\<close> is returned. In
  particular \<^verbatim>\<open>{"result": "ok"}\<close> yields \<^verbatim>\<open>ok\<close>, \<^verbatim>\<open>{"responseText": "ok2"}\<close> yields
  \<^verbatim>\<open>ok2\<close> and \<^verbatim>\<open>{}\<close> yields \<^verbatim>\<open>No response received\<close>.
\<close>

theorem C3_response_text:
  "(configured p \<and> fetch e (requestOf p) = Inr r \<and> ok r \<and> json r = Inr d \<and> d \<noteq> JNull \<longrightarrow>
      fst (testApi e p) = Inr \<lparr>success = True, data = \<lparr>response = probe d\<rparr>\<rparr>)
   \<and> probe (JObj [(''result'', JStr ''ok'')]) = JStr ''ok''
   \<and> probe (JObj [(''responseText'', JStr ''ok2'')]) = JStr ''ok2''
   \<and> probe (JObj []) = JStr ''No response received''"
proof (intro conjI impI)
  assume "configured p \<and> fetch e (requestOf p) = Inr r \<and> ok r \<and> json r = Inr d \<and> d \<noteq> JNull"
  then show "fst (testApi e p) = Inr \<lparr>success = True, data = \<lparr>response = probe d\<rparr>\<rparr>"
    by (simp add: configured_testApi tryBlock_decoded probe_code)
qed (simp_all add: probe_def)

theorem C3_response_text_witness:
  "fst (testApi (answering (jsonResponse 200 ''OK'' (JObj [(''responseText'', JStr ''ok2'')])))
                (testParams [] None)) =
     Inr \<lparr>success = True, data = \<lparr>response = JStr ''ok2''\<rparr>\<rparr>"
  using C3_response_text
          [of "testParams [] None"
              "answering (jsonResponse 200 ''OK'' (JObj [(''responseText'', JStr ''ok2'')]))"
              "jsonResponse 200 ''OK'' (JObj [(''responseText'', JStr ''ok2'')])"
              "JObj [(''responseText'', JStr ''ok2'')]"]
  by (simp add: testParams_def answering_def jsonResponse_def ok_def configured_def)

text \<open>
  Claim C3 as stated fails for a field that is present and falsy. The body
  \<^verbatim>\<open>{"result": 0, "message": "done"}\<close> has a \<^verbatim>\<open>result\<close>, and the call returns \<^verbatim>\<open>done\<close>;
  the body \<^verbatim>\<open>{"result": ""}\<close> has a \<^verbatim>\<open>result\<close>, and the call returns
  \<^verbatim>\<open>No response received\<close>.
\<close>

theorem C3_present_falsy_counterexample:
  "get (JObj [(''result'', JNum 0), (''message'', JStr ''done'')]) ''result'' = Some (JNum 0)
   \<and> fst (testApi (answering (jsonResponse 200 ''OK''
                               (JObj [(''result'', JNum 0), (''message'', JStr ''done'')])))
                  (testParams [] None)) =
       Inr \<lparr>success = True, data = \<lparr>response = JStr ''done''\<rparr>\<rparr>
   \<and> get (JObj [(''result'', JStr [])]) ''result'' = Some (JStr [])
   \<and> fst (testApi (answering (jsonResponse 200 ''OK'' (JObj [(''result'', JStr [])])))
                  (testParams [] None)) =
       Inr \<lparr>success = True, data = \<lparr>response = JStr ''No response received''\<rparr>\<rparr>"
  by (simp add: testApi_def tryBlock_def clearPrevious_def logResponse_def responseTextOf_def lor_def
        requestOf_def testParams_def answering_def jsonResponse_def ok_def Let_def)

section \<open>The checks of the worker id and the token\<close>

text \<open>
  Claim C4 against the code. For a request whose worker id or token is empty or equals
  its placeholder (\<^verbatim>\<open>your-worker-id\<close>, \<^verbatim>\<open>your-auth-token\<close>), the call performs no effect
  at all (no network call, no delete, no insert), as the claim says; but what it raises
  is the \<^verbatim>\<open>ReferenceError\<close> of the unbound name \<^verbatim>\<open>ApiError\<close>, not the failure of the check
  with the message of line 52 or line 56. Here: an empty worker id, and the placeholder
  token.
\<close>

theorem C4_precondition_failure_raises_reference_error:
  "testApi (answering (jsonResponse 200 ''OK'' (JObj [])))
           ((testParams [] (Some ''w1'')) \<lparr>workerId := []\<rparr>) =
     (Inl (JsError ''ApiError is not defined'' None), [])
   \<and> testApi (answering (jsonResponse 200 ''OK'' (JObj [])))
             ((testParams [] (Some ''w1'')) \<lparr>apiAuthToken := ''your-auth-token''\<rparr>) =
     (Inl (JsError ''ApiError is not defined'' None), [])"
  by (simp add: testApi_def newApiError_def testParams_def answering_def)

section \<open>The failure path\<close>

text \<open>
  Claim C5, amended. On every failure inside the \<^verbatim>\<open>try\<close> block (a rejected \<^verbatim>\<open>fetch\<close>, a
  body that is not JSON, the error raised for a status outside the success range) the
  call reports the failure through \<open>logError\<close> with the context of worker id, url and
  method; then, if the workflow id is non-empty and the variables have a key
  \<^verbatim>\<open>workflow\<close>, it inserts a row at level \<^verbatim>\<open>error\<close> whose message is the error's message,
  or \<^verbatim>\<open>Failed to connect to MindStudio API\<close> when the thrown value is not an \<^verbatim>\<open>Error\<close>, and
  whose details are the error's message and stack, or \<^verbatim>\<open>Unknown error\<close> and no stack when
  the thrown value is not an \<^verbatim>\<open>Error\<close>; the same value is then raised to the caller.
\<close>

theorem C5_failure_path:
  "configured p \<and> fst (tryBlock e p) = Inl x \<longrightarrow>
     testApi e p =
       (Inl x,
        snd (tryBlock e p)
        @ [ConsoleError (if instanceofError x then messageOf x else ''An unknown error occurred'')
                        (if instanceofError x then stackOf x else None)
                        (Some [(''workerId'', workerId p), (''url'', url (apiConfig p)),
                               (''method'', method' (apiConfig p))])]
        @ (case workflowId p of
             None \<Rightarrow> []
           | Some w \<Rightarrow>
               if w \<noteq> [] \<and> map_of (variables p) ''workflow'' \<noteq> None
               then [Insert \<lparr>workflow_id = w, level = ''error'',
                             message = (if instanceofError x then messageOf x
                                        else ''Failed to connect to MindStudio API''),
                             details = ErrorDetails
                                         (if instanceofError x then messageOf x
                                          else ''Unknown error'')
                                         (if instanceofError x then stackOf x else None)\<rparr>]
               else []))"
  by (cases "tryBlock e p"; cases "workflowId p")
     (auto simp: configured_testApi catchBlock_def logError_def)

text \<open>A \<^verbatim>\<open>fetch\<close> that rejects with a \<^verbatim>\<open>TypeError\<close>, workflow \<^verbatim>\<open>w1\<close>, variables
  \<^verbatim>\<open>{workflow: "x"}\<close>.\<close>

theorem C5_failure_path_witness:
  "testApi (rejecting (JsError ''Failed to fetch'' (Some ''TypeError: Failed to fetch'')))
           (testParams [(''workflow'', ''x'')] (Some ''w1'')) =
     (Inl (JsError ''Failed to fetch'' (Some ''TypeError: Failed to fetch'')),
      snd (tryBlock (rejecting (JsError ''Failed to fetch'' (Some ''TypeError: Failed to fetch'')))
                    (testParams [(''workflow'', ''x'')] (Some ''w1'')))
      @ [ConsoleError ''Failed to fetch'' (Some ''TypeError: Failed to fetch'')
           (Some [(''workerId'', ''worker-1''),
                  (''url'', ''https://api.mindstudio.ai/developer/v2/workers/run''),
                  (''method'', ''post'')]),
         Insert \<lparr>workflow_id = ''w1'', level = ''error'', message = ''Failed to fetch'',
                  details = ErrorDetails ''Failed to fetch'' (Some ''TypeError: Failed to fetch'')\<rparr>])"
  using C5_failure_path
          [of "testParams [(''workflow'', ''x'')] (Some ''w1'')"
              "rejecting (JsError ''Failed to fetch'' (Some ''TypeError: Failed to fetch''))"
              "JsError ''Failed to fetch'' (Some ''TypeError: Failed to fetch'')"]
        tryBlock_failures(1)
          [of "rejecting (JsError ''Failed to fetch'' (Some ''TypeError: Failed to fetch''))"
              "testParams [(''workflow'', ''x'')] (Some ''w1'')"
              "JsError ''Failed to fetch'' (Some ''TypeError: Failed to fetch'')"]
  by (simp add: testParams_def rejecting_def configured_def postConfig_def)

text \<open>
  Claim C5 as stated fails on the fallback. A \<^verbatim>\<open>fetch\<close> that rejects with a value that is
  not an \<^verbatim>\<open>Error\<close>, workflow \<^verbatim>\<open>w1\<close>, variables \<^verbatim>\<open>{workflow: "x"}\<close>: the row's message is
  \<^verbatim>\<open>Failed to connect to MindStudio API\<close>, not the string of the claim, and its details
  hold \<^verbatim>\<open>Unknown error\<close>, not that message.
\<close>

theorem C5_fallback_text_counterexample:
  "inserts (snd (testApi (rejecting (NonError (JStr ''offline'')))
                         (testParams [(''workflow'', ''x'')] (Some ''w1'')))) =
     [\<lparr>workflow_id = ''w1'', level = ''error'',
       message = ''Failed to connect to MindStudio API'',
       details = ErrorDetails ''Unknown error'' None\<rparr>]
   \<and> ''Failed to connect to MindStudio API'' \<noteq> ''Failed to connect to the remote worker API''"
  by (simp add: testApi_def tryBlock_def catchBlock_def logError_def clearPrevious_def
        testParams_def rejecting_def Let_def)

section \<open>Two tests in a row\<close>

text \<open>
  Claim C6. Two calls in sequence with the same (non-empty) workflow id, both returning
  normally and neither with a key \<^verbatim>\<open>workflow\<close> in its variables, leave at most one row
  with message \<^verbatim>\<open>API request successful\<close> for that workflow in the table, whatever the
  table held before: each call first deletes the rows of that workflow with that
  message, then inserts its own.
\<close>

theorem C6_at_most_one_success_row:
  assumes "workflowId p1 = Some w" and "workflowId p2 = Some w" and "w \<noteq> []"
    and "map_of (variables p1) ''workflow'' = None"
    and "map_of (variables p2) ''workflow'' = None"
    and "fst (testApi e1 p1) = Inr a1" and "fst (testApi e2 p2) = Inr a2"
  shows "length (filter (\<lambda>r. workflow_id r = w \<and> message r = ''API request successful'')
           (runStore (runStore rows (snd (testApi e1 p1))) (snd (testApi e2 p2)))) \<le> 1"
proof -
  from testApi_success_test [OF assms(7) assms(2) assms(3) assms(5)]
  obtain r :: response and d where
    fx: "snd (testApi e2 p2) =
           [Delete w ''API request successful'', Fetch (requestOf p2),
            Insert \<lparr>workflow_id = w, level = ''info'', message = ''API request successful'',
                    details = ResponseDetails (status r) d\<rparr>]"
    by blast
  show ?thesis
    by (simp add: fx runStore_def)
qed

theorem C6_at_most_one_success_row_witness:
  "length (filter (\<lambda>r. workflow_id r = ''w1'' \<and> message r = ''API request successful'')
     (runStore (runStore staleRows
        (snd (testApi (answering (jsonResponse 200 ''OK'' (JObj [(''result'', JStr ''ok'')])))
                      (testParams [] (Some ''w1'')))))
        (snd (testApi (answering (jsonResponse 201 ''Created'' (JObj [])))
                      (testParams [(''request'', ''hi'')] (Some ''w1'')))))) \<le> 1"
proof -
  have h1: "fst (testApi (answering (jsonResponse 200 ''OK'' (JObj [(''result'', JStr ''ok'')])))
                      (testParams [] (Some ''w1''))) =
            Inr \<lparr>success = True, data = \<lparr>response = JStr ''ok''\<rparr>\<rparr>"
    by (simp add: testApi_def tryBlock_def responseTextOf_def lor_def
          testParams_def answering_def jsonResponse_def ok_def Let_def)
  have h2: "fst (testApi (answering (jsonResponse 201 ''Created'' (JObj [])))
                      (testParams [(''request'', ''hi'')] (Some ''w1''))) =
            Inr \<lparr>success = True, data = \<lparr>response = JStr ''No response received''\<rparr>\<rparr>"
    by (simp add: testApi_def tryBlock_def responseTextOf_def lor_def
          testParams_def answering_def jsonResponse_def ok_def Let_def)
  have w1: "workflowId (testParams [] (Some ''w1'')) = Some ''w1''"
    and w2: "workflowId (testParams [(''request'', ''hi'')] (Some ''w1'')) = Some ''w1''"
    and v1: "map_of (variables (testParams [] (Some ''w1''))) ''workflow'' = None"
    and v2: "map_of (variables (testParams [(''request'', ''hi'')] (Some ''w1''))) ''workflow'' = None"
    by (simp_all add: testParams_def)
  show ?thesis
    by (rule C6_at_most_one_success_row [OF w1 w2 _ v1 v2 h1 h2]) simp
qed

section \<open>The Authorization header\<close>

text \<open>
  Claim C7. The value of the \<^verbatim>\<open>Authorization\<close> header is the token unchanged when the
  token starts with \<^verbatim>\<open>Bearer \<close>, and \<^verbatim>\<open>Bearer \<close> followed by the token otherwise; so
  the prefixing is idempotent, \<^verbatim>\<open>abc\<close> gives \<^verbatim>\<open>Bearer abc\<close> and \<^verbatim>\<open>Bearer abc\<close> gives
  \<^verbatim>\<open>Bearer abc\<close>; and every request the call sends carries that value for its token.
\<close>

theorem C7_authorization_header:
  "authorization t = (if prefix ''Bearer '' t then t else ''Bearer '' @ t)
   \<and> authorization (authorization t) = authorization t
   \<and> authorization ''abc'' = ''Bearer abc''
   \<and> authorization ''Bearer abc'' = ''Bearer abc''
   \<and> (\<forall>q. Fetch q \<in> set (snd (testApi e p)) \<longrightarrow>
          req_authorization q = authorization (apiAuthToken p))"
proof -
  have "\<forall>q. Fetch q \<in> set (snd (testApi e p)) \<longrightarrow>
          req_authorization q = authorization (apiAuthToken p)"
    by (auto simp: testApi_def tryBlock_def Let_def clearPrevious_def logResponse_def
          catchBlock_def logError_def requestOf_def split: if_splits sum.splits)
  then show ?thesis
    by (simp add: authorization_def startsWith_def)
qed

theorem C7_authorization_header_witness:
  "Fetch (requestOf (testParams [] None))
     \<in> set (snd (testApi (answering (jsonResponse 200 ''OK'' (JObj []))) (testParams [] None)))
   \<and> req_authorization (requestOf (testParams [] None)) = ''Bearer abc''"
proof -
  have h: "Fetch (requestOf (testParams [] None))
     \<in> set (snd (testApi (answering (jsonResponse 200 ''OK'' (JObj []))) (testParams [] None)))"
    by (simp add: testApi_def tryBlock_def clearPrevious_def logResponse_def
          testParams_def answering_def jsonResponse_def ok_def Let_def)
  have a: "apiAuthToken (testParams [] None) = ''abc''"
    by (simp add: testParams_def)
  from h a C7_authorization_header
             [of "''abc''" "answering (jsonResponse 200 ''OK'' (JObj []))" "testParams [] None"]
  show ?thesis by simp
qed

section \<open>The error classifier\<close>

text \<open>
  Claim C8. \<open>handleApiError\<close> shows the operator the text of the category of its input
  and raises the error of that category, where the category of an error is found by
  looking for substrings of its message in this order, the first match winning:
  \<^verbatim>\<open>401\<close> Authentication, \<^verbatim>\<open>403\<close> Permission, \<^verbatim>\<open>404\<close> NotFound, \<^verbatim>\<open>429\<close> RateLimit,
  \<^verbatim>\<open>500\<close> ServerError; any other input is Unknown. The text shown for Authentication is
  \<^verbatim>\<open>Authentication failed. Please check your API credentials.\<close>
\<close>

theorem C8_classifier_priority:
  "handleApiError e x =
     (Inl (JsError (raisedMessage (categoryOf x)) (stackTrace e)),
      [ToastError (userMessage (categoryOf x))])
   \<and> categoryOf x =
       (if \<not> instanceofError x then Unknown
        else if \<exists>a b. messageOf x = a @ ''401'' @ b then Authentication
        else if \<exists>a b. messageOf x = a @ ''403'' @ b then Permission
        else if \<exists>a b. messageOf x = a @ ''404'' @ b then NotFound
        else if \<exists>a b. messageOf x = a @ ''429'' @ b then RateLimit
        else if \<exists>a b. messageOf x = a @ ''500'' @ b then ServerError
        else Unknown)
   \<and> userMessage Authentication = ''Authentication failed. Please check your API credentials.''"
  by (simp add: handleApiError_category categoryOf_def classify_cascade includesStr_iff)

text \<open>A message that holds \<^verbatim>\<open>404\<close> before \<^verbatim>\<open>401\<close>: the order of the checks decides, not
  the position in the message.\<close>

theorem C8_classifier_priority_witness:
  "handleApiError (rejecting (NonError JNull)) (JsError ''404 page says: status 401'' None) =
     (Inl (JsError ''Authentication failed'' None),
      [ToastError ''Authentication failed. Please check your API credentials.''])"
proof -
  have c: "categoryOf (JsError ''404 page says: status 401'' None) = Authentication"
    by (simp add: categoryOf_def classify_cascade)
  from C8_classifier_priority
         [of "rejecting (NonError JNull)" "JsError ''404 page says: status 401'' None"] c
  show ?thesis by (simp add: rejecting_def)
qed

section \<open>No workflow, no access to the table\<close>

text \<open>
  Claim C9. For every request without a workflow id (absent, or empty), the call
  accesses the table not at all, neither by a delete nor by an insert, whether it
  returns or raises: every effect it performs is the network call or the report of
  \<open>logError\<close>.
\<close>

theorem C9_no_store_access_without_workflow:
  "\<not> truthyS (workflowId p) \<longrightarrow>
     filter isStoreAccess (snd (testApi e p)) = []
     \<and> (\<forall>x \<in> set (snd (testApi e p)). isFetch x \<or> isConsoleError x)"
  by (auto simp: testApi_def tryBlock_def Let_def clearPrevious_def logResponse_def
        catchBlock_def logError_def split: if_splits sum.splits)

theorem C9_no_store_access_without_workflow_witness:
  "filter isStoreAccess
     (snd (testApi (answering (jsonResponse 500 ''Internal Server Error'' (JObj [])))
                   (testParams [(''workflow'', ''x'')] None))) = []
   \<and> filter isStoreAccess
     (snd (testApi (answering (jsonResponse 200 ''OK'' (JObj [])))
                   (testParams [] (Some [])))) = []"
  using C9_no_store_access_without_workflow
          [of "testParams [(''workflow'', ''x'')] None"
              "answering (jsonResponse 500 ''Internal Server Error'' (JObj []))"]
        C9_no_store_access_without_workflow
          [of "testParams [] (Some [])" "answering (jsonResponse 200 ''OK'' (JObj []))"]
  by (simp add: testParams_def)

section \<open>The classifier never returns\<close>

text \<open>
  Claim C10. For every input, an \<^verbatim>\<open>Error\<close> or not, \<open>handleApiError\<close> does not return: it
  shows one text to the operator and then raises a new \<^verbatim>\<open>Error\<close> that holds the fixed
  message of the category and nothing of the input. The message is
  \<^verbatim>\<open>Authentication failed\<close> for an error whose message holds \<^verbatim>\<open>401\<close>; otherwise
  \<^verbatim>\<open>Permission denied\<close> for \<^verbatim>\<open>403\<close>, \<^verbatim>\<open>Resource not found\<close> for \<^verbatim>\<open>404\<close>,
  \<^verbatim>\<open>Rate limit exceeded\<close> for \<^verbatim>\<open>429\<close>, \<^verbatim>\<open>Server error\<close> for \<^verbatim>\<open>500\<close>; and
  \<^verbatim>\<open>Unknown error occurred\<close> when none of the substrings is there or the input is not an
  \<^verbatim>\<open>Error\<close>. Two inputs that agree on being an \<^verbatim>\<open>Error\<close> and on the message give the
  same outcome: nothing else of the input is kept.
\<close>

theorem C10_classifier_always_raises:
  "fst (handleApiError e x) =
      Inl (JsError
              (if instanceofError x \<and> (\<exists>a b. messageOf x = a @ ''401'' @ b)
                 then ''Authentication failed''
               else if instanceofError x \<and> (\<exists>a b. messageOf x = a @ ''403'' @ b)
                 then ''Permission denied''
               else if instanceofError x \<and> (\<exists>a b. messageOf x = a @ ''404'' @ b)
                 then ''Resource not found''
               else if instanceofError x \<and> (\<exists>a b. messageOf x = a @ ''429'' @ b)
                 then ''Rate limit exceeded''
               else if instanceofError x \<and> (\<exists>a b. messageOf x = a @ ''500'' @ b)
                 then ''Server error''
               else ''Unknown error occurred'')
              (stackTrace e))
   \<and> (\<exists>t. snd (handleApiError e x) = [ToastError t])
   \<and> (\<forall>y. instanceofError y = instanceofError x \<and> messageOf y = messageOf x \<longrightarrow>
          handleApiError e y = handleApiError e x)"
proof (intro conjI allI impI)
  show "fst (handleApiError e x) =
      Inl (JsError
              (if instanceofError x \<and> (\<exists>a b. messageOf x = a @ ''401'' @ b)
                 then ''Authentication failed''
               else if instanceofError x \<and> (\<exists>a b. messageOf x = a @ ''403'' @ b)
                 then ''Permission denied''
               else if instanceofError x \<and> (\<exists>a b. messageOf x = a @ ''404'' @ b)
                 then ''Resource not found''
               else if instanceofError x \<and> (\<exists>a b. messageOf x = a @ ''429'' @ b)
                 then ''Rate limit exceeded''
               else if instanceofError x \<and> (\<exists>a b. messageOf x = a @ ''500'' @ b)
                 then ''Server error''
               else ''Unknown error occurred'')
              (stackTrace e))"
    using handleApiError_raised [of e x] by (simp only: includesStr_iff)
next
  show "\<exists>t. snd (handleApiError e x) = [ToastError t]"
    by (rule handleApiError_one_toast)
next
  fix y
  assume h: "instanceofError y = instanceofError x \<and> messageOf y = messageOf x"
  show "handleApiError e y = handleApiError e x"
    by (rule handleApiError_same_input) (simp_all only: h)
qed

text \<open>
  An error of a rate limit whose message also holds \<^verbatim>\<open>500\<close>, with a stack trace that
  the raised error does not keep; a thrown string that holds \<^verbatim>\<open>401\<close>; an \<^verbatim>\<open>Error\<close>
  whose message holds none of the substrings; and the same \<^verbatim>\<open>Error\<close> with another stack
  trace.
\<close>

theorem C10_classifier_always_raises_witness:
  "fst (handleApiError (rejecting (NonError JNull))
          (JsError ''HTTP 429 after 500 ms'' (Some ''at testApi''))) =
     Inl (JsError ''Rate limit exceeded'' None)
   \<and> fst (handleApiError (rejecting (NonError JNull)) (NonError (JStr ''status 401''))) =
     Inl (JsError ''Unknown error occurred'' None)
   \<and> fst (handleApiError (rejecting (NonError JNull)) (JsError ''timeout'' None)) =
     Inl (JsError ''Unknown error occurred'' None)
   \<and> handleApiError (rejecting (NonError JNull)) (JsError ''timeout'' (Some ''at fetch'')) =
     handleApiError (rejecting (NonError JNull)) (JsError ''timeout'' None)"
proof -
  note c = C10_classifier_always_raises [THEN conjunct1, unfolded includesStr_iff [symmetric]]
  from c [of "rejecting (NonError JNull)" "JsError ''HTTP 429 after 500 ms'' (Some ''at testApi'')"]
  have one: "fst (handleApiError (rejecting (NonError JNull))
          (JsError ''HTTP 429 after 500 ms'' (Some ''at testApi''))) =
     Inl (JsError ''Rate limit exceeded'' None)"
    by (simp add: rejecting_def)
  from c [of "rejecting (NonError JNull)" "NonError (JStr ''status 401'')"]
  have two: "fst (handleApiError (rejecting (NonError JNull)) (NonError (JStr ''status 401''))) =
     Inl (JsError ''Unknown error occurred'' None)"
    by (simp add: rejecting_def)
  from c [of "rejecting (NonError JNull)" "JsError ''timeout'' None"]
  have three: "fst (handleApiError (rejecting (NonError JNull)) (JsError ''timeout'' None)) =
     Inl (JsError ''Unknown error occurred'' None)"
    by (simp add: rejecting_def)
  have four: "handleApiError (rejecting (NonError JNull)) (JsError ''timeout'' (Some ''at fetch'')) =
     handleApiError (rejecting (NonError JNull)) (JsError ''timeout'' None)"
    by (rule C10_classifier_always_raises
               [of _ "JsError ''timeout'' None",
                THEN conjunct2, THEN conjunct2, THEN spec, THEN mp]) simp
  from one two three four show ?thesis by (intro conjI)
qed

end
